theory Spec2Isabelle
  imports Complex_Main "HOL-Library.Sublist"
begin

section \<open>Score presentation: ESGRadarChart and ESGScoreCard\<close>

text \<open>
  JavaScript numbers are modelled as \<^typ>\<open>real\<close>: sums, a division by three and
  comparisons against integer thresholds are taken exactly, without the rounding of
  IEEE doubles. A value that is \<^verbatim>\<open>null\<close>, \<^verbatim>\<open>undefined\<close> or \<^verbatim>\<open>NaN\<close> where a number is
  expected is \<^term>\<open>None\<close>.
\<close>

text \<open>\<^verbatim>\<open>Number(x) || 0\<close> of ESGRadarChart: a missing or NaN score counts as 0.\<close>

definition numberOrZero :: "real option \<Rightarrow> real" where
  "numberOrZero x = (case x of None \<Rightarrow> 0 | Some v \<Rightarrow> if v = 0 then 0 else v)"

text \<open>\<^verbatim>\<open>Math.round\<close>: the nearest integer, a tie going up.\<close>

definition Math_round :: "real \<Rightarrow> int" where
  "Math_round x = \<lfloor>x + 1 / 2\<rfloor>"

record rating =
  label :: string
  color :: string

text \<open>The local \<^verbatim>\<open>avg\<close> of \<^verbatim>\<open>getOverallRating\<close>, over the three coerced scores.\<close>

definition avg :: "real option \<Rightarrow> real option \<Rightarrow> real option \<Rightarrow> real" where
  "avg environmental social governance =
     (numberOrZero environmental + numberOrZero social + numberOrZero governance) / 3"

definition getOverallRating :: "real option \<Rightarrow> real option \<Rightarrow> real option \<Rightarrow> rating" where
  "getOverallRating environmental social governance =
     (let a = avg environmental social governance in
      if a \<ge> 80 then \<lparr>label = ''Excellent'', color = ''text-emerald-400''\<rparr>
      else if a \<ge> 60 then \<lparr>label = ''Good'', color = ''text-gaia-400''\<rparr>
      else if a \<ge> 40 then \<lparr>label = ''Fair'', color = ''text-amber-400''\<rparr>
      else \<lparr>label = ''Poor'', color = ''text-red-400''\<rparr>)"


text \<open>\<^verbatim>\<open>getScoreLabel\<close> of ESGScoreCard.\<close>

definition getScoreLabel :: "real \<Rightarrow> string" where
  "getScoreLabel score =
     (if score \<ge> 80 then ''Excellent''
      else if score \<ge> 60 then ''Good''
      else if score \<ge> 40 then ''Fair''
      else ''Poor'')"

text \<open>
  The specification's wording of the two rules, for comparison with the code:
  the five risk bands and the three-pillar weighted mean.
\<close>

definition riskLevel_spec :: "real \<Rightarrow> string" where
  "riskLevel_spec score =
     (if score < 20 then ''critical''
      else if score < 40 then ''high''
      else if score < 60 then ''moderate''
      else if score < 80 then ''low''
      else ''minimal'')"



section \<open>Backend payloads as the dashboard reads them\<close>

text \<open>
  The dashboard receives JSON documents typed \<^verbatim>\<open>any\<close>. Each property it reads is given
  the type the component uses it at (\<^verbatim>\<open>score as number\<close>, \<^verbatim>\<open>severity: string\<close>, lists
  passed to \<^verbatim>\<open>forEach\<close>); a property that is absent or \<^verbatim>\<open>null\<close> is \<^term>\<open>None\<close>.
  Values that are only stored or tested for truthiness stay untyped JSON.
\<close>

datatype json =
  JNull | JBool bool | JNum real | JStr string | JArr "json list" | JObj "(string \<times> json) list"

fun truthy :: "json \<Rightarrow> bool" where
  "truthy JNull = False"
| "truthy (JBool b) = b"
| "truthy (JNum n) = (n \<noteq> 0)"
| "truthy (JStr s) = (s \<noteq> [])"
| "truthy (JArr xs) = True"
| "truthy (JObj kvs) = True"

text \<open>
  The operator \<^verbatim>\<open>||\<close> at each type: the left operand when it is truthy, the right one
  otherwise. Zero and the empty string are falsy; every array is truthy.
\<close>

definition truthyStr :: "string option \<Rightarrow> bool" where
  "truthyStr x = (case x of None \<Rightarrow> False | Some s \<Rightarrow> s \<noteq> [])"

definition numOr :: "real option \<Rightarrow> real \<Rightarrow> real" where
  "numOr x d = (case x of None \<Rightarrow> d | Some v \<Rightarrow> if v \<noteq> 0 then v else d)"

definition strOr :: "string option \<Rightarrow> string \<Rightarrow> string" where
  "strOr x d = (case x of None \<Rightarrow> d | Some s \<Rightarrow> if s \<noteq> [] then s else d)"

definition listOr :: "'a list option \<Rightarrow> 'a list \<Rightarrow> 'a list" where
  "listOr x d = (case x of None \<Rightarrow> d | Some xs \<Rightarrow> xs)"

definition goalOr :: "int option \<Rightarrow> int option \<Rightarrow> int option" where
  "goalOr x y = (case x of None \<Rightarrow> y | Some v \<Rightarrow> if v \<noteq> 0 then Some v else y)"

record esg_scores_obj =
  environmental :: "real option"
  social :: "real option"
  governance :: "real option"
  overall :: "real option"

text \<open>An element of \<^verbatim>\<open>sdgData\<close>: an entry of \<^verbatim>\<open>top_sdgs\<close> or one built from \<^verbatim>\<open>sdg_impact\<close>.\<close>

record sdg_obj =
  goal :: "int option"
  sdg_number :: "int option"
  score :: "real option"
  impact_score :: "real option"
  impact_type :: "string option"
  evidence :: "string list option"
  initiatives :: "string list option"

record signal_obj =
  severity :: "string option"
  risk_level :: "string option"
  category :: "string option"
  type :: "string option"
  description :: "string option"
  signal :: "string option"
  evidence :: "string list option"
  indicators :: "string list option"
  confidence :: "real option"
  confidence_score :: "real option"

record resolution_obj =
  final_confidence :: "real option"

record debate_summary_obj =
  greenwashing_signals :: "signal_obj list option"
  arguments :: "json list option"
  resolution :: "resolution_obj option"

record orchestrator_summary_obj =
  debate_sessions :: "json list option"
  greenwashing_signals :: "json list option"

record payload =
  environmental_score :: "real option"
  social_score :: "real option"
  governance_score :: "real option"
  overall_score :: "real option"
  esg_scores :: "esg_scores_obj option"
  sdg_impact :: "(string \<times> real) list option"
  top_sdgs :: "sdg_obj list option"
  debate_summary :: "debate_summary_obj option"
  greenwashing_alerts :: "signal_obj list option"
  company_name :: "string option"
  ticker :: "string option"
  completed_at :: "string option"
  created_at :: "string option"
  confidence :: "real option"
  blockchain :: "json option"
  orchestrator_summary :: "orchestrator_summary_obj option"
  debate_sessions :: "json list option"
  greenwashing_signals :: "json list option"

text \<open>The reply of the status endpoint.\<close>

record status_obj =
  status :: "string option"
  results :: "payload option"
  error :: "string option"
  completed_agents :: "string list option"
  pending_agents :: "string list option"

text \<open>A parsed WebSocket message.\<close>

record message =
  type :: string
  status :: "string option"
  message :: "string option"
  agent_id :: "string option"
  task :: "string option"
  findings :: "string list option"
  round :: "int option"
  data :: "payload option"


section \<open>The types of the frontend (types/index.ts)\<close>

record Company =
  name :: string
  ticker :: "string option"

record ESGScores =
  environmental :: real
  social :: real
  governance :: real
  overall :: real

record SDGImpact =
  goal :: "int option"
  title :: string
  score :: int
  impact :: string
  evidence :: "string list"

datatype severity_level = low | medium | high | critical

record GreenwashingAlert =
  severity :: severity_level
  category :: string
  description :: string
  evidence :: "string list"
  confidence :: real

datatype agent_state = idle | working | completed | debating

text \<open>The field \<^verbatim>\<open>id\<close> of an agent is \<open>agentId\<close> here.\<close>

record AgentStatus =
  agentId :: string
  name :: string
  role :: string
  status :: agent_state
  currentTask :: "string option"
  progress :: real
  findings :: "string list option"
  avatar :: "string option"

text \<open>
  \<^verbatim>\<open>new Date(x)\<close> is kept as the argument it was built from: a timestamp string of the
  payload or the milliseconds of \<^verbatim>\<open>Date.now()\<close>.
\<close>

datatype date = DateOfString string | DateOfMillis int

record AnalysisResult =
  company :: Company
  esgScores :: ESGScores
  sdgImpacts :: "SDGImpact list"
  greenwashingAlerts :: "GreenwashingAlert list"
  agents :: "AgentStatus list"
  debate :: "json list"
  analysisDate :: date
  confidence :: real

text \<open>\<^verbatim>\<open>GAIA_AGENTS\<close>; an avatar is the UTF-8 encoding of its emoji.\<close>

definition gaiaAgent :: "string \<Rightarrow> string \<Rightarrow> string \<Rightarrow> string \<Rightarrow> AgentStatus" where
  "gaiaAgent i n r a =
     \<lparr>agentId = i, AgentStatus.name = n, role = r, AgentStatus.status = idle, currentTask = None,
      AgentStatus.progress = 0, AgentStatus.findings = None, avatar = Some a\<rparr>"

definition GAIA_AGENTS :: "AgentStatus list" where
  "GAIA_AGENTS =
     [gaiaAgent ''sentinel'' ''Sentinel'' ''Environmental Monitoring''
        [CHR 0xF0, CHR 0x9F, CHR 0x9B, CHR 0xA1, CHR 0xEF, CHR 0xB8, CHR 0x8F],
      gaiaAgent ''veritas'' ''Veritas'' ''Supply Chain Verification''
        [CHR 0xF0, CHR 0x9F, CHR 0x94, CHR 0x8D],
      gaiaAgent ''pulse'' ''Pulse'' ''Sentiment Analysis''
        [CHR 0xF0, CHR 0x9F, CHR 0x93, CHR 0x8A],
      gaiaAgent ''regulus'' ''Regulus'' ''Regulatory Compliance''
        [CHR 0xE2, CHR 0x9A, CHR 0x96, CHR 0xEF, CHR 0xB8, CHR 0x8F],
      gaiaAgent ''impact'' ''Impact'' ''SDG Quantification''
        [CHR 0xF0, CHR 0x9F, CHR 0x8E, CHR 0xAF],
      gaiaAgent ''nexus'' ''NEXUS'' ''Financial Inclusion''
        [CHR 0xF0, CHR 0x9F, CHR 0x8C, CHR 0x90],
      gaiaAgent ''orchestrator'' ''Orchestrator'' ''Adversarial Debate''
        [CHR 0xF0, CHR 0x9F, CHR 0xA7, CHR 0xA0]]"


section \<open>The analysis dashboard (AnalysisDashboard)\<close>

subsection \<open>Strings and numbers of the runtime\<close>

text \<open>Strings are byte strings; case conversion touches the ASCII letters only.\<close>

definition toLowerCase :: "string \<Rightarrow> string" where
  "toLowerCase s =
     map (\<lambda>c. let n = (of_char c :: nat) in if 65 \<le> n \<and> n \<le> 90 then char_of (n + 32) else c) s"

text \<open>\<^verbatim>\<open>s.includes(t)\<close>: \<^verbatim>\<open>t\<close> occurs in \<^verbatim>\<open>s\<close> as a contiguous substring.\<close>

definition includes_str :: "string \<Rightarrow> string \<Rightarrow> bool" where
  "includes_str s t = sublist t s"

fun showNat :: "nat \<Rightarrow> string" where
  "showNat n =
     (if n < 10 then [char_of (48 + n)] else showNat (n div 10) @ [char_of (48 + n mod 10)])"

declare showNat.simps [simp del]

definition showInt :: "int \<Rightarrow> string" where
  "showInt i = (if i < 0 then CHR ''-'' # showNat (nat (- i)) else showNat (nat i))"

text \<open>A number inside a template literal; an absent one prints as \<^verbatim>\<open>undefined\<close>.\<close>

definition template :: "int option \<Rightarrow> string" where
  "template x = (case x of None \<Rightarrow> ''undefined'' | Some i \<Rightarrow> showInt i)"

definition isWhiteSpace :: "char \<Rightarrow> bool" where
  "isWhiteSpace c = ((of_char c :: nat) \<in> {9, 10, 11, 12, 13, 32})"

definition digitValue :: "char \<Rightarrow> nat" where
  "digitValue c =
     (let n = (of_char c :: nat) in
      if 48 \<le> n \<and> n \<le> 57 then n - 48
      else if 97 \<le> n \<and> n \<le> 122 then n - 87
      else if 65 \<le> n \<and> n \<le> 90 then n - 55
      else 36)"

fun fromDigits :: "nat \<Rightarrow> nat \<Rightarrow> nat list \<Rightarrow> nat" where
  "fromDigits radix acc [] = acc"
| "fromDigits radix acc (d # ds) = fromDigits radix (acc * radix + d) ds"

text \<open>
  \<^verbatim>\<open>parseInt(s)\<close> without a radix: leading white space and a sign are skipped, a prefix
  \<^verbatim>\<open>0x\<close> selects base 16, the longest run of digits is read, and no digit at all gives
  \<^verbatim>\<open>NaN\<close> (\<^term>\<open>None\<close>).
\<close>

definition parseInt :: "string \<Rightarrow> int option" where
  "parseInt s =
     (let s1 = dropWhile isWhiteSpace s;
          negative = (take 1 s1 = ''-'');
          s2 = (if take 1 s1 = ''-'' \<or> take 1 s1 = ''+'' then drop 1 s1 else s1);
          hex = (take 2 s2 = ''0x'' \<or> take 2 s2 = ''0X'');
          radix = (if hex then 16 else 10);
          s3 = (if hex then drop 2 s2 else s2);
          ds = takeWhile (\<lambda>d. d < radix) (map digitValue s3)
      in if ds = [] then None
         else Some (if negative then - int (fromDigits radix 0 ds) else int (fromDigits radix 0 ds)))"

definition intOr :: "int option \<Rightarrow> int \<Rightarrow> int" where
  "intOr x d = (case x of None \<Rightarrow> d | Some v \<Rightarrow> if v \<noteq> 0 then v else d)"

subsection \<open>Mapping a results payload\<close>

definition titles :: "(int \<times> string) list" where
  "titles =
     [(1, ''No Poverty''), (2, ''Zero Hunger''), (3, ''Good Health''), (4, ''Quality Education''),
      (5, ''Gender Equality''), (6, ''Clean Water''), (7, ''Clean Energy''), (8, ''Decent Work''),
      (9, ''Innovation''), (10, ''Reduced Inequality''), (11, ''Sustainable Cities''),
      (12, ''Responsible Consumption''), (13, ''Climate Action''), (14, ''Life Below Water''),
      (15, ''Life on Land''), (16, ''Peace & Justice''), (17, ''Partnerships'')]"

definition getSDGTitle :: "int option \<Rightarrow> string" where
  "getSDGTitle g =
     (case (case g of None \<Rightarrow> None | Some n \<Rightarrow> map_of titles n) of
        Some t \<Rightarrow> t
      | None \<Rightarrow> ''SDG '' @ template g)"

definition mapSeverity :: "string \<Rightarrow> severity_level" where
  "mapSeverity sev =
     (let lower = toLowerCase sev in
      if includes_str lower ''critical'' \<or> includes_str lower ''severe'' then critical
      else if includes_str lower ''high'' then high
      else if includes_str lower ''low'' \<or> includes_str lower ''minor'' then low
      else medium)"

text \<open>One entry of \<^verbatim>\<open>Object.entries(data.sdg_impact).map(...)\<close>.\<close>

definition sdgOfEntry :: "string \<times> real \<Rightarrow> sdg_obj" where
  "sdgOfEntry e =
     \<lparr>sdg_obj.goal = parseInt (fst e), sdg_number = None,
      sdg_obj.score = Some (snd e), impact_score = None,
      impact_type = Some (if snd e > 50 then ''positive'' else ''neutral''),
      sdg_obj.evidence = None, initiatives = None\<rparr>"

definition sdgData :: "payload \<Rightarrow> sdg_obj list" where
  "sdgData d =
     (case top_sdgs d of
        Some xs \<Rightarrow> xs
      | None \<Rightarrow> map sdgOfEntry (listOr (sdg_impact d) []))"

definition scoreAbove50 :: "real option \<Rightarrow> bool" where
  "scoreAbove50 x = (case x of None \<Rightarrow> False | Some v \<Rightarrow> v > 50)"

text \<open>The body of \<^verbatim>\<open>sdgData.forEach\<close>.\<close>

definition toSDGImpact :: "sdg_obj \<Rightarrow> SDGImpact" where
  "toSDGImpact sdg =
     \<lparr>SDGImpact.goal = goalOr (sdg_obj.goal sdg) (sdg_number sdg),
      title = getSDGTitle (goalOr (sdg_obj.goal sdg) (sdg_number sdg)),
      SDGImpact.score = Math_round (numOr (sdg_obj.score sdg) (numOr (impact_score sdg) 0)),
      impact = strOr (impact_type sdg)
                 (if scoreAbove50 (sdg_obj.score sdg) then ''positive'' else ''neutral''),
      SDGImpact.evidence = listOr (sdg_obj.evidence sdg) (listOr (initiatives sdg) [])\<rparr>"

definition sdgImpactsOf :: "payload \<Rightarrow> SDGImpact list" where
  "sdgImpactsOf d =
     (if sdg_impact d \<noteq> None \<or> top_sdgs d \<noteq> None then map toSDGImpact (sdgData d)
      else [])"

text \<open>The body of \<^verbatim>\<open>signals.forEach\<close>.\<close>

definition toAlert :: "signal_obj \<Rightarrow> GreenwashingAlert" where
  "toAlert sg =
     \<lparr>GreenwashingAlert.severity =
        mapSeverity (strOr (signal_obj.severity sg) (strOr (risk_level sg) ''medium'')),
      GreenwashingAlert.category =
        strOr (signal_obj.category sg) (strOr (signal_obj.type sg) ''General''),
      GreenwashingAlert.description = strOr (signal_obj.description sg) (strOr (signal sg) ''''),
      GreenwashingAlert.evidence = listOr (signal_obj.evidence sg) (listOr (indicators sg) []),
      GreenwashingAlert.confidence =
        numOr (signal_obj.confidence sg) (numOr (confidence_score sg) (1 / 2))\<rparr>"

text \<open>\<^verbatim>\<open>data.debate_summary?.greenwashing_signals\<close>.\<close>

definition summarySignals :: "payload \<Rightarrow> signal_obj list option" where
  "summarySignals d =
     (case debate_summary d of
        None \<Rightarrow> None
      | Some ds \<Rightarrow> debate_summary_obj.greenwashing_signals ds)"

definition greenwashingAlertsOf :: "payload \<Rightarrow> GreenwashingAlert list" where
  "greenwashingAlertsOf d =
     (if summarySignals d \<noteq> None \<or> greenwashing_alerts d \<noteq> None
      then map toAlert (listOr (summarySignals d) (listOr (greenwashing_alerts d) []))
      else [])"

text \<open>\<^verbatim>\<open>data.esg_scores?.f\<close> for a field \<^verbatim>\<open>f\<close>.\<close>

definition esgField :: "(esg_scores_obj \<Rightarrow> real option) \<Rightarrow> payload \<Rightarrow> real option" where
  "esgField f d = (case esg_scores d of None \<Rightarrow> None | Some e \<Rightarrow> f e)"

definition esgScoresOf :: "payload \<Rightarrow> ESGScores" where
  "esgScoresOf d =
     \<lparr>ESGScores.environmental =
        numOr (environmental_score d) (numOr (esgField esg_scores_obj.environmental d) 0),
      ESGScores.social = numOr (social_score d) (numOr (esgField esg_scores_obj.social d) 0),
      ESGScores.governance =
        numOr (governance_score d) (numOr (esgField esg_scores_obj.governance d) 0),
      ESGScores.overall =
        numOr (overall_score d) (numOr (esgField esg_scores_obj.overall d) 0)\<rparr>"

text \<open>\<^verbatim>\<open>data.debate_summary?.resolution?.final_confidence\<close>.\<close>

definition finalConfidence :: "payload \<Rightarrow> real option" where
  "finalConfidence d =
     (case debate_summary d of
        None \<Rightarrow> None
      | Some ds \<Rightarrow> (case resolution ds of None \<Rightarrow> None | Some r \<Rightarrow> final_confidence r))"

text \<open>\<^verbatim>\<open>new Date(data.completed_at || data.created_at || Date.now())\<close>.\<close>

definition analysisDateOf :: "int \<Rightarrow> payload \<Rightarrow> date" where
  "analysisDateOf now d =
     (if truthyStr (completed_at d) then DateOfString (the (completed_at d))
      else if truthyStr (created_at d) then DateOfString (the (created_at d))
      else DateOfMillis now)"

text \<open>
  The object \<^verbatim>\<open>result\<close> of \<^verbatim>\<open>processResults\<close>. Besides the payload it reads the agent
  list the component holds and, for a payload without a timestamp, the clock.
\<close>

definition buildResult :: "AgentStatus list \<Rightarrow> int \<Rightarrow> payload \<Rightarrow> AnalysisResult" where
  "buildResult ags now d =
     \<lparr>company =
        \<lparr>Company.name = strOr (company_name d) (strOr (payload.ticker d) ''Unknown''),
         Company.ticker = payload.ticker d\<rparr>,
      esgScores = esgScoresOf d,
      sdgImpacts = sdgImpactsOf d,
      greenwashingAlerts = greenwashingAlertsOf d,
      AnalysisResult.agents = ags,
      debate = listOr (case debate_summary d of None \<Rightarrow> None | Some ds \<Rightarrow> arguments ds) [],
      analysisDate = analysisDateOf now d,
      AnalysisResult.confidence =
        numOr (finalConfidence d) (numOr (payload.confidence d) (85 / 100))\<rparr>"

text \<open>The state of the component: one field for each \<^verbatim>\<open>useState\<close> the handlers write.\<close>

record Dashboard =
  isAnalyzing :: bool
  analysisResult :: "AnalysisResult option"
  agents :: "AgentStatus list"
  error :: "string option"
  analysisId :: "string option"
  blockchainStatus :: "json option"
  debateSessions :: "json list"
  greenwashingSignals :: "json list"
  isDebating :: bool
  currentDebateRound :: int

definition initialDashboard :: Dashboard where
  "initialDashboard =
     \<lparr>isAnalyzing = False, analysisResult = None, Dashboard.agents = [], Dashboard.error = None,
      analysisId = None, blockchainStatus = None, debateSessions = [], greenwashingSignals = [],
      isDebating = False, currentDebateRound = 0\<rparr>"

definition summarySessions :: "payload \<Rightarrow> json list option" where
  "summarySessions d =
     (case orchestrator_summary d of
        None \<Rightarrow> None
      | Some os \<Rightarrow> orchestrator_summary_obj.debate_sessions os)"

definition orchestratorSignals :: "payload \<Rightarrow> json list option" where
  "orchestratorSignals d =
     (case orchestrator_summary d of
        None \<Rightarrow> None
      | Some os \<Rightarrow> orchestrator_summary_obj.greenwashing_signals os)"

definition processResults :: "AgentStatus list \<Rightarrow> int \<Rightarrow> payload \<Rightarrow> Dashboard \<Rightarrow> Dashboard" where
  "processResults ags now d s =
     (let s1 = s\<lparr>analysisResult := Some (buildResult ags now d)\<rparr>;
          s2 = (case blockchain d of
                  None \<Rightarrow> s1
                | Some b \<Rightarrow> if truthy b then s1\<lparr>blockchainStatus := Some b\<rparr> else s1);
          s3 = (if summarySessions d \<noteq> None \<or> payload.debate_sessions d \<noteq> None
                then s2\<lparr>debateSessions :=
                          listOr (summarySessions d) (listOr (payload.debate_sessions d) [])\<rparr>
                else s2)
      in if orchestratorSignals d \<noteq> None \<or> payload.greenwashing_signals d \<noteq> None
         then s3\<lparr>greenwashingSignals :=
                   listOr (orchestratorSignals d) (listOr (payload.greenwashing_signals d) [])\<rparr>
         else s3)"

subsection \<open>The backend as the handlers see it\<close>

text \<open>
  A request either resolves with a reply or rejects. The polling loop asks for the
  status once per attempt, so its replies are indexed by the attempt; the requests that
  \<^verbatim>\<open>fetchFinalResults\<close> issues have replies of their own.
\<close>

datatype 'a response = Rejected | Resolved 'a

record Backend =
  statusReply :: "nat \<Rightarrow> status_obj response"
  resultsReply :: "payload response"
  fallbackStatusReply :: "status_obj response"

text \<open>The requests a handler issues, by call site.\<close>

datatype api_call = PollStatus | FetchResults | FetchStatus

datatype js_error = TypeError

text \<open>
  \<^verbatim>\<open>fetchFinalResults\<close>: the results endpoint first; when that request rejects, the
  status endpoint, whose reply is used only if it carries results.
\<close>

definition fetchFinalResults ::
  "Backend \<Rightarrow> AgentStatus list \<Rightarrow> int \<Rightarrow> string \<Rightarrow> Dashboard \<Rightarrow> Dashboard \<times> api_call list" where
  "fetchFinalResults b ags now ident s =
     (case resultsReply b of
        Resolved r \<Rightarrow> ((processResults ags now r s)\<lparr>isAnalyzing := False\<rparr>, [FetchResults])
      | Rejected \<Rightarrow>
          ((case fallbackStatusReply b of
              Resolved st \<Rightarrow>
                (case results st of Some r \<Rightarrow> processResults ags now r s | None \<Rightarrow> s)
            | Rejected \<Rightarrow> s\<lparr>Dashboard.error := Some ''Failed to fetch analysis results''\<rparr>)
           \<lparr>isAnalyzing := False\<rparr>,
           [FetchResults, FetchStatus]))"

text \<open>The agent update at the head of every successful poll.\<close>

definition updateAgents :: "status_obj \<Rightarrow> Dashboard \<Rightarrow> Dashboard" where
  "updateAgents st s =
     (case completed_agents st of
        None \<Rightarrow> s
      | Some done \<Rightarrow>
          s\<lparr>Dashboard.agents :=
              map (\<lambda>agent. agent
                    \<lparr>AgentStatus.status :=
                       (if agentId agent \<in> set done then completed
                        else if (case pending_agents st of
                                   None \<Rightarrow> False
                                 | Some p \<Rightarrow> agentId agent \<in> set p) then working
                        else AgentStatus.status agent),
                     AgentStatus.progress :=
                       (if agentId agent \<in> set done then 100 else AgentStatus.progress agent)\<rparr>)
                (Dashboard.agents s)\<rparr>)"

definition maxAttempts :: nat where
  "maxAttempts = 120"

text \<open>
  The closure \<^verbatim>\<open>poll\<close> of \<^verbatim>\<open>pollAnalysisStatus\<close>; \<^verbatim>\<open>setTimeout(poll, ...)\<close> is the
  recursive call. The result is the state the loop leaves and the requests it issued.
\<close>

function poll ::
  "Backend \<Rightarrow> AgentStatus list \<Rightarrow> int \<Rightarrow> string \<Rightarrow> nat \<Rightarrow> Dashboard \<Rightarrow> Dashboard \<times> api_call list" where
  "poll b ags now ident attempts s =
     (if attempts \<ge> maxAttempts
      then (s\<lparr>Dashboard.error := Some ''Analysis timed out'', isAnalyzing := False\<rparr>, [])
      else
        (case statusReply b attempts of
           Rejected \<Rightarrow> apsnd (Cons PollStatus) (poll b ags now ident (attempts + 1) s)
         | Resolved st \<Rightarrow>
             (if status_obj.status st = Some ''completed'' then
                (case results st of
                   Some r \<Rightarrow>
                     ((processResults ags now r (updateAgents st s))\<lparr>isAnalyzing := False\<rparr>,
                      [PollStatus])
                 | None \<Rightarrow>
                     (case fetchFinalResults b ags now ident (updateAgents st s) of
                        (s', calls) \<Rightarrow> (s'\<lparr>isAnalyzing := False\<rparr>, PollStatus # calls)))
              else if status_obj.status st = Some ''failed'' then
                ((updateAgents st s)
                   \<lparr>Dashboard.error := Some (strOr (status_obj.error st) ''Analysis failed''),
                    isAnalyzing := False\<rparr>,
                 [PollStatus])
              else apsnd (Cons PollStatus)
                     (poll b ags now ident (attempts + 1) (updateAgents st s)))))"
  by pat_completeness auto
termination
  by (relation "measure (\<lambda>(b, ags, now, ident, attempts, s). maxAttempts - attempts)") auto

declare poll.simps [simp del]

definition pollAnalysisStatus ::
  "Backend \<Rightarrow> AgentStatus list \<Rightarrow> int \<Rightarrow> string \<Rightarrow> Dashboard \<Rightarrow> Dashboard \<times> api_call list" where
  "pollAnalysisStatus b ags now ident s = poll b ags now ident 0 s"

text \<open>
  \<^verbatim>\<open>handleWebSocketMessage\<close>, a \<^verbatim>\<open>switch\<close> on \<^verbatim>\<open>message.type\<close> without a default.
  \<^verbatim>\<open>knownId\<close> is the \<^verbatim>\<open>analysisId\<close> the callback closed over. A result message without
  \<^verbatim>\<open>data\<close> makes \<^verbatim>\<open>processResults\<close> throw on its first property access. The call
  of \<^verbatim>\<open>fetchFinalResults\<close> is not awaited in the source; its effect on the state is
  taken here as part of the step that starts it.
\<close>

definition handleWebSocketMessage ::
  "string option \<Rightarrow> Backend \<Rightarrow> AgentStatus list \<Rightarrow> int \<Rightarrow> message \<Rightarrow> Dashboard
     \<Rightarrow> js_error + Dashboard" where
  "handleWebSocketMessage knownId b ags now m s =
     (if type m = ''connected'' then Inr s
      else if type m = ''status'' then
        (if message.status m = Some ''completed'' then
           (if truthyStr knownId then Inr (fst (fetchFinalResults b ags now (the knownId) s))
            else Inr s)
         else if message.status m = Some ''failed'' then
           Inr (s\<lparr>Dashboard.error := Some (strOr (message m) ''Analysis failed''),
                  isAnalyzing := False\<rparr>)
         else Inr s)
      else if type m = ''progress'' then Inr s
      else if type m = ''agent_start'' then
        Inr (s\<lparr>Dashboard.agents :=
                 map (\<lambda>agent. if Some (agentId agent) = agent_id m
                       then agent\<lparr>AgentStatus.status := working,
                                  currentTask := Some (strOr (task m) ''Analyzing...''),
                                  AgentStatus.progress := 0\<rparr>
                       else agent)
                   (Dashboard.agents s)\<rparr>)
      else if type m = ''agent_complete'' then
        Inr (s\<lparr>Dashboard.agents :=
                 map (\<lambda>agent. if Some (agentId agent) = agent_id m
                       then agent\<lparr>AgentStatus.status := completed,
                                  AgentStatus.progress := 100,
                                  AgentStatus.findings := Some (listOr (message.findings m) [])\<rparr>
                       else agent)
                   (Dashboard.agents s)\<rparr>)
      else if type m = ''debate_update'' then
        Inr (s\<lparr>isDebating := True,
               currentDebateRound := intOr (round m) 0,
               Dashboard.agents :=
                 map (\<lambda>agent. if agentId agent = ''orchestrator''
                       then agent\<lparr>AgentStatus.status := debating,
                                  currentTask := Some (''Debate Round '' @ template (round m))\<rparr>
                       else agent)
                   (Dashboard.agents s)\<rparr>)
      else if type m = ''debate_complete'' then Inr (s\<lparr>isDebating := False\<rparr>)
      else if type m = ''result'' then
        (case data m of
           None \<Rightarrow> Inl TypeError
         | Some d \<Rightarrow> Inr ((processResults ags now d s)\<lparr>isAnalyzing := False\<rparr>))
      else if type m = ''error'' then
        Inr (s\<lparr>Dashboard.error := Some (strOr (message m) ''An error occurred''),
               isAnalyzing := False\<rparr>)
      else Inr s)"

text \<open>
  \<^verbatim>\<open>ws.onmessage\<close> of \<^verbatim>\<open>connectWebSocket\<close>: an exception of the callback is caught and
  logged, the state stays as it was.
\<close>

definition onmessage :: "(message \<Rightarrow> Dashboard \<Rightarrow> js_error + Dashboard) \<Rightarrow> message \<Rightarrow> Dashboard \<Rightarrow> Dashboard" where
  "onmessage onMessage m s = (case onMessage m s of Inl e \<Rightarrow> s | Inr s' \<Rightarrow> s')"



subsection \<open>Inputs and outcomes\<close>

text \<open>The payload \<^verbatim>\<open>{}\<close>, the message \<^verbatim>\<open>{type: t}\<close> and the status reply \<^verbatim>\<open>{}\<close>.\<close>

definition emptyPayload :: payload where
  "emptyPayload =
     \<lparr>environmental_score = None, social_score = None, governance_score = None,
      overall_score = None, esg_scores = None, sdg_impact = None, top_sdgs = None,
      debate_summary = None, greenwashing_alerts = None, company_name = None,
      payload.ticker = None, completed_at = None, created_at = None, payload.confidence = None,
      blockchain = None, orchestrator_summary = None, payload.debate_sessions = None,
      payload.greenwashing_signals = None\<rparr>"

definition bareMessage :: "string \<Rightarrow> message" where
  "bareMessage t =
     \<lparr>type = t, message.status = None, message = None, agent_id = None, task = None,
      message.findings = None, round = None, data = None\<rparr>"

definition emptyStatus :: status_obj where
  "emptyStatus =
     \<lparr>status_obj.status = None, results = None, status_obj.error = None,
      completed_agents = None, pending_agents = None\<rparr>"

text \<open>The state right after \<^verbatim>\<open>handleAnalyze\<close> has reset it and stored the agents.\<close>

definition analyzingDashboard :: Dashboard where
  "analyzingDashboard = initialDashboard\<lparr>isAnalyzing := True, Dashboard.agents := GAIA_AGENTS\<rparr>"

text \<open>A run has an outcome when a result is stored or an error message is set.\<close>

definition hasOutcome :: "Dashboard \<Rightarrow> bool" where
  "hasOutcome s = (analysisResult s \<noteq> None \<or> Dashboard.error s \<noteq> None)"


text \<open>
  \<^verbatim>\<open>fetchFinalResults\<close> can obtain the results of a completed run: the results request
  resolves, or the status request it falls back to rejects or carries results.
\<close>

definition resultsObtainable :: "Backend \<Rightarrow> bool" where
  "resultsObtainable b =
     (case resultsReply b of
        Resolved r \<Rightarrow> True
      | Rejected \<Rightarrow>
          (case fallbackStatusReply b of Rejected \<Rightarrow> True | Resolved st \<Rightarrow> results st \<noteq> None))"

text \<open>
  Two backends: one whose every request rejects, and one that reports the run as
  completed but never hands out results.
\<close>

definition offlineBackend :: Backend where
  "offlineBackend =
     \<lparr>statusReply = (\<lambda>k. Rejected), resultsReply = Rejected, fallbackStatusReply = Rejected\<rparr>"

definition completedWithoutResults :: Backend where
  "completedWithoutResults =
     \<lparr>statusReply = (\<lambda>k. Resolved (emptyStatus\<lparr>status_obj.status := Some ''completed''\<rparr>)),
      resultsReply = Rejected,
      fallbackStatusReply = Resolved (emptyStatus\<lparr>status_obj.status := Some ''completed''\<rparr>)\<rparr>"


text \<open>
  A backend whose status requests reject until the last attempt, which reports the run
  as completed without results; the results cannot be fetched afterwards either.
\<close>

definition completesAtLastAttempt :: Backend where
  "completesAtLastAttempt =
     \<lparr>statusReply =
        (\<lambda>k. if k < 119 then Rejected
             else Resolved (emptyStatus\<lparr>status_obj.status := Some ''completed''\<rparr>)),
      resultsReply = Rejected,
      fallbackStatusReply = Resolved (emptyStatus\<lparr>status_obj.status := Some ''completed''\<rparr>)\<rparr>"


section \<open>The API client (services/api.ts)\<close>

definition toUpperCase :: "string \<Rightarrow> string" where
  "toUpperCase s =
     map (\<lambda>c. let n = (of_char c :: nat) in if 97 \<le> n \<and> n \<le> 122 then char_of (n - 32) else c) s"

text \<open>The static methods of the class \<^verbatim>\<open>AnalysisAPI\<close>, in source order.\<close>

datatype api_method =
  startAnalysis | getAnalysisStatus | getAnalysisResults | connectWebSocket
  | getBlockchainStatus | getAuditTrail | verifyBlockchain

definition AnalysisAPI :: "api_method list" where
  "AnalysisAPI =
     [startAnalysis, getAnalysisStatus, getAnalysisResults, connectWebSocket,
      getBlockchainStatus, getAuditTrail, verifyBlockchain]"

datatype transport = HttpGet | HttpPost | HttpDelete | WebSocketOpen

text \<open>
  What each method sends, for its string argument (the ticker or the analysis id; the
  methods without a parameter ignore it): \<^verbatim>\<open>api.get\<close>, \<^verbatim>\<open>api.post\<close> or
  \<^verbatim>\<open>new WebSocket\<close>, and the path.
\<close>

fun endpoint :: "api_method \<Rightarrow> string \<Rightarrow> transport \<times> string" where
  "endpoint startAnalysis arg = (HttpPost, ''/api/v1/analyze'')"
| "endpoint getAnalysisStatus arg = (HttpGet, ''/api/v1/analyze/'' @ arg)"
| "endpoint getAnalysisResults arg = (HttpGet, ''/api/v1/analyze/'' @ arg @ ''/results'')"
| "endpoint connectWebSocket arg = (WebSocketOpen, ''/api/v1/analyze/ws/'' @ arg)"
| "endpoint getBlockchainStatus arg = (HttpGet, ''/api/v1/blockchain/status'')"
| "endpoint getAuditTrail arg = (HttpGet, ''/api/v1/blockchain/audit/'' @ toUpperCase arg)"
| "endpoint verifyBlockchain arg = (HttpGet, ''/api/v1/blockchain/verify'')"

text \<open>
  The four boundary operations of the specification, and the one each client method
  serves according to its doc comment; the three blockchain methods serve none.
\<close>

datatype boundary_operation = RunInvocation | ProgressSubscription | ResultRetrieval | Cancellation

fun boundaryRole :: "api_method \<Rightarrow> boundary_operation option" where
  "boundaryRole startAnalysis = Some RunInvocation"
| "boundaryRole getAnalysisStatus = Some ResultRetrieval"
| "boundaryRole getAnalysisResults = Some ResultRetrieval"
| "boundaryRole connectWebSocket = Some ProgressSubscription"
| "boundaryRole getBlockchainStatus = None"
| "boundaryRole getAuditTrail = None"
| "boundaryRole verifyBlockchain = None"


section \<open>Confidence revision under challenge\<close>

text \<open>
  Modelled from the spec: the confidence revision of the debate (section 4.4). The
  backend code that applies a challenge to a finding is not among the sources, which
  hold only its documentation. The specification fixes the shape of the rule and the
  order of the two bonuses, not their values, so the bonus for a challenger of the
  finding's own domain and the bonus for a challenger of another domain are parameters.
  \<^verbatim>\<open>counter_reliability\<close> is the normalized reliability of the counter-evidence.
\<close>

record Finding_spec =
  finding_category :: string
  finding_confidence :: real

record Challenge_spec =
  challenger_domain :: string
  counter_reliability :: real

definition independence_bonus_spec :: "real \<Rightarrow> real \<Rightarrow> Finding_spec \<Rightarrow> Challenge_spec \<Rightarrow> real" where
  "independence_bonus_spec sameBonus otherBonus f c =
     (if challenger_domain c \<noteq> finding_category f then otherBonus else sameBonus)"

definition counter_weight_spec :: "real \<Rightarrow> real \<Rightarrow> Finding_spec \<Rightarrow> Challenge_spec \<Rightarrow> real" where
  "counter_weight_spec sameBonus otherBonus f c =
     counter_reliability c * independence_bonus_spec sameBonus otherBonus f c"

definition apply_challenge_spec :: "real \<Rightarrow> real \<Rightarrow> Finding_spec \<Rightarrow> Challenge_spec \<Rightarrow> Finding_spec" where
  "apply_challenge_spec sameBonus otherBonus f c =
     f\<lparr>finding_confidence :=
         finding_confidence f * (1 - counter_weight_spec sameBonus otherBonus f c)\<rparr>"

text \<open>The challenges of a debate, applied to a finding one after the other.\<close>

fun apply_challenges_spec :: "real \<Rightarrow> real \<Rightarrow> Finding_spec \<Rightarrow> Challenge_spec list \<Rightarrow> Finding_spec" where
  "apply_challenges_spec sameBonus otherBonus f [] = f"
| "apply_challenges_spec sameBonus otherBonus f (c # cs) =
     apply_challenges_spec sameBonus otherBonus (apply_challenge_spec sameBonus otherBonus f c) cs"


section \<open>Properties of the score presentation\<close>


text \<open>
  C1 (as the code has it). The label of a score comes from four bands, not five:
  Poor below 40, Fair from 40 up to 60, Good from 60 up to 80, Excellent from 80 on.
  \<^verbatim>\<open>getScoreLabel\<close> applies the bands to the score itself, \<^verbatim>\<open>getOverallRating\<close> applies
  the same bands to the plain average of the three sub-scores.
\<close>

theorem score_label_four_bands:
  "(getScoreLabel x = ''Excellent'' \<longleftrightarrow> 80 \<le> x)
   \<and> (getScoreLabel x = ''Good'' \<longleftrightarrow> 60 \<le> x \<and> x < 80)
   \<and> (getScoreLabel x = ''Fair'' \<longleftrightarrow> 40 \<le> x \<and> x < 60)
   \<and> (getScoreLabel x = ''Poor'' \<longleftrightarrow> x < 40)
   \<and> label (getOverallRating e s g) = getScoreLabel (avg e s g)"
  by (simp add: getScoreLabel_def getOverallRating_def Let_def)

text \<open>
  C1, counterexample. Scores 10 and 30 lie in different bands of the specification
  (critical and high) but receive one and the same label from the code, and that label
  is none of the five the specification names.
\<close>

theorem score_label_bands_counterexample:
  "getScoreLabel 10 = getScoreLabel 30
   \<and> riskLevel_spec 10 \<noteq> riskLevel_spec 30
   \<and> getScoreLabel 10 \<noteq> riskLevel_spec 10
   \<and> label (getOverallRating (Some 10) (Some 10) (Some 10)) = ''Poor''"
  by (simp add: getScoreLabel_def riskLevel_spec_def getOverallRating_def avg_def
      numberOrZero_def Let_def)




section \<open>Properties of the result mapping\<close>

lemma numOr_falsy: "x = None \<or> x = Some 0 \<Longrightarrow> numOr x d = d"
  by (auto simp: numOr_def)

lemma analysisResult_processResults:
  "analysisResult (processResults ags now d s) = Some (buildResult ags now d)"
  by (simp add: processResults_def Let_def split: option.splits)

text \<open>
  C8. When the payload carries no usable confidence, that is, both
  \<^verbatim>\<open>debate_summary.resolution.final_confidence\<close> and \<^verbatim>\<open>confidence\<close> are absent, null or 0,
  \<^verbatim>\<open>processResults\<close> stores a result whose confidence is exactly 0.85; a reported
  confidence of 0 is replaced like a missing one.
\<close>

theorem confidence_defaults_to_085:
  assumes "finalConfidence d = None \<or> finalConfidence d = Some 0"
    and "payload.confidence d = None \<or> payload.confidence d = Some 0"
  shows "\<exists>r. analysisResult (processResults ags now d s) = Some r
            \<and> AnalysisResult.confidence r = 85 / 100"
  using assms by (simp add: analysisResult_processResults buildResult_def numOr_falsy)

theorem confidence_defaults_to_085_witness:
  "\<exists>r. analysisResult (processResults GAIA_AGENTS 0
            (emptyPayload\<lparr>payload.confidence := Some 0\<rparr>) analyzingDashboard) = Some r
       \<and> AnalysisResult.confidence r = 85 / 100"
  by (rule confidence_defaults_to_085) (simp_all add: finalConfidence_def emptyPayload_def)




lemma analysisDateOf_timestamp:
  "truthyStr (completed_at d) \<or> truthyStr (created_at d)
   \<Longrightarrow> analysisDateOf now d = analysisDateOf now' d"
  by (auto simp: analysisDateOf_def)

text \<open>
  C6 (as the code has it). The displayed result is a function of the payload, of the
  agent list the component holds and of the clock. For a payload that carries a
  non-empty \<^verbatim>\<open>completed_at\<close> or \<^verbatim>\<open>created_at\<close> the clock is not consulted: with the same
  agent list and the same previous state, evaluations at two different times store the
  same state.
\<close>

theorem result_independent_of_clock_with_timestamp:
  assumes "truthyStr (completed_at d) \<or> truthyStr (created_at d)"
  shows "processResults ags now d s = processResults ags now' d s"
  using analysisDateOf_timestamp [OF assms, of now now']
  by (simp add: processResults_def buildResult_def)

theorem result_independent_of_clock_with_timestamp_witness:
  "processResults GAIA_AGENTS 1000 (emptyPayload\<lparr>created_at := Some ''2025-01-01T00:00:00Z''\<rparr>)
      analyzingDashboard
   = processResults GAIA_AGENTS 2000 (emptyPayload\<lparr>created_at := Some ''2025-01-01T00:00:00Z''\<rparr>)
      analyzingDashboard"
  by (rule result_independent_of_clock_with_timestamp) (simp add: emptyPayload_def truthyStr_def)

text \<open>
  C6, counterexample. The payload \<^verbatim>\<open>{}\<close> evaluated at clock readings 1000 and 2000 gives
  two different results (the analysis date is the clock reading), and the same payload
  gives different results for different agent lists held by the component.
\<close>

theorem result_depends_on_clock_counterexample:
  "analysisResult (processResults GAIA_AGENTS 1000 emptyPayload analyzingDashboard)
   \<noteq> analysisResult (processResults GAIA_AGENTS 2000 emptyPayload analyzingDashboard)
   \<and> analysisResult (processResults [] 1000 emptyPayload analyzingDashboard)
   \<noteq> analysisResult (processResults GAIA_AGENTS 1000 emptyPayload analyzingDashboard)"
  by (simp add: analysisResult_processResults buildResult_def analysisDateOf_def emptyPayload_def
      truthyStr_def GAIA_AGENTS_def)


section \<open>Properties of the progress handler\<close>





section \<open>Properties of the polling loop\<close>







text \<open>
  The requests of \<^verbatim>\<open>fetchFinalResults\<close> come on top of the loop's own. When the status
  requests reject 119 times and the last attempt sees status completed without results,
  the results request and one more status request follow: 121 status requests reach the
  backend in that run, 120 of them from the loop.
\<close>

lemma last_attempt_fallback_requests:
  "a \<le> 119 \<Longrightarrow>
   snd (poll completesAtLastAttempt ags now i a s)
     = replicate (120 - a) PollStatus @ [FetchResults, FetchStatus]"
proof (induction "119 - a" arbitrary: a)
  case 0
  then have a: "a = 119" by simp
  show ?case
    unfolding a
    by (subst poll.simps)
      (simp add: maxAttempts_def completesAtLastAttempt_def emptyStatus_def fetchFinalResults_def)
next
  case (Suc n)
  then have lt: "a < 119" and next_a: "n = 119 - (a + 1)" "a + 1 \<le> 119" by simp_all
  have unfold: "poll completesAtLastAttempt ags now i a s
      = apsnd (Cons PollStatus) (poll completesAtLastAttempt ags now i (a + 1) s)"
    using lt by (subst poll.simps) (simp add: maxAttempts_def completesAtLastAttempt_def)
  have rep: "replicate (120 - a) PollStatus = PollStatus # replicate (120 - (a + 1)) PollStatus"
    using lt by (simp add: Suc_diff_Suc flip: replicate_Suc)
  from Suc.hyps(1) [OF next_a] rep show ?case
    unfolding unfold by simp
qed

lemma status_requests_with_fallback:
  "length (filter (\<lambda>c. c = PollStatus \<or> c = FetchStatus)
      (snd (pollAnalysisStatus completesAtLastAttempt GAIA_AGENTS 0 ''run-1'' analyzingDashboard)))
   = 121"
  by (simp add: pollAnalysisStatus_def last_attempt_fallback_requests)


section \<open>Outcomes of a run\<close>

lemma hasOutcome_processResults: "hasOutcome (processResults ags now d s)"
  by (simp add: hasOutcome_def analysisResult_processResults)

lemma hasOutcome_isAnalyzing: "hasOutcome (s\<lparr>isAnalyzing := v\<rparr>) = hasOutcome s"
  by (simp add: hasOutcome_def)

lemma hasOutcome_error: "hasOutcome (s\<lparr>Dashboard.error := Some e\<rparr>)"
  by (simp add: hasOutcome_def)

lemma hasOutcome_fetchFinalResults:
  "resultsObtainable b \<Longrightarrow> hasOutcome (fst (fetchFinalResults b ags now i s))"
  by (auto simp add: resultsObtainable_def fetchFinalResults_def hasOutcome_isAnalyzing
      hasOutcome_processResults hasOutcome_error split: response.splits option.splits)

lemma hasOutcome_poll:
  "resultsObtainable b \<Longrightarrow> hasOutcome (fst (poll b ags now i a s))"
proof (induction b ags now i a s rule: poll.induct)
  case (1 b ags now ident attempts s)
  show ?case
  proof (cases "attempts \<ge> maxAttempts")
    case True
    then show ?thesis by (simp add: poll.simps hasOutcome_def)
  next
    case False
    show ?thesis
    proof (cases "statusReply b attempts")
      case Rejected
      with False "1.IH"(1) [OF False Rejected "1.prems"] show ?thesis
        by (subst poll.simps) simp
    next
      case (Resolved st)
      consider (finished) "status_obj.status st = Some ''completed''"
        | (failed) "status_obj.status st \<noteq> Some ''completed''" "status_obj.status st = Some ''failed''"
        | (go) "status_obj.status st \<noteq> Some ''completed''" "status_obj.status st \<noteq> Some ''failed''"
        by blast
      then show ?thesis
      proof cases
        case finished
        with False Resolved
          hasOutcome_fetchFinalResults [OF "1.prems", of ags now ident "updateAgents st s"]
        show ?thesis
          by (subst poll.simps)
            (auto simp: hasOutcome_isAnalyzing hasOutcome_processResults split: option.splits prod.splits)
      next
        case failed
        with False Resolved show ?thesis
          by (subst poll.simps) (simp add: hasOutcome_def)
      next
        case go
        with False Resolved "1.IH"(2) [OF False Resolved go "1.prems"] show ?thesis
          by (subst poll.simps) simp
      qed
    qed
  qed
qed

text \<open>
  C3 (as the code has it). Provided the results of a completed run can be obtained,
  every way the polling loop ends (completed, failed, timed out) leaves a stored result
  or an error message, and so does the progress handler on an error message, a failed
  status, a result message with data, and a completed status when the analysis id is
  known. A completed status that arrives while no analysis id is known is ignored: the
  state stays exactly as it was.
\<close>

theorem outcome_when_results_obtainable:
  assumes "resultsObtainable b"
  shows "hasOutcome (fst (pollAnalysisStatus b ags now i s))
   \<and> (type m = ''error'' \<or> (type m = ''status'' \<and> message.status m = Some ''failed'')
        \<longrightarrow> hasOutcome (onmessage (handleWebSocketMessage knownId b ags now) m s))
   \<and> (type m = ''result'' \<and> data m \<noteq> None
        \<longrightarrow> hasOutcome (onmessage (handleWebSocketMessage knownId b ags now) m s))
   \<and> (type m = ''status'' \<and> message.status m = Some ''completed'' \<and> truthyStr knownId
        \<longrightarrow> hasOutcome (onmessage (handleWebSocketMessage knownId b ags now) m s))
   \<and> (type m = ''status'' \<and> message.status m = Some ''completed'' \<and> \<not> truthyStr knownId
        \<longrightarrow> onmessage (handleWebSocketMessage knownId b ags now) m s = s)"
proof -
  have polled: "hasOutcome (fst (pollAnalysisStatus b ags now i s))"
    using hasOutcome_poll [OF assms] by (simp add: pollAnalysisStatus_def)
  have failed: "type m = ''error'' \<or> (type m = ''status'' \<and> message.status m = Some ''failed'')
        \<longrightarrow> hasOutcome (onmessage (handleWebSocketMessage knownId b ags now) m s)"
    by (auto simp add: onmessage_def handleWebSocketMessage_def hasOutcome_def)
  have result: "type m = ''result'' \<and> data m \<noteq> None
        \<longrightarrow> hasOutcome (onmessage (handleWebSocketMessage knownId b ags now) m s)"
    by (auto simp add: onmessage_def handleWebSocketMessage_def hasOutcome_isAnalyzing
        hasOutcome_processResults)
  have fetched: "type m = ''status'' \<and> message.status m = Some ''completed'' \<and> truthyStr knownId
        \<longrightarrow> hasOutcome (onmessage (handleWebSocketMessage knownId b ags now) m s)"
    using hasOutcome_fetchFinalResults [OF assms]
    by (simp add: onmessage_def handleWebSocketMessage_def)
  have ignored: "type m = ''status'' \<and> message.status m = Some ''completed'' \<and> \<not> truthyStr knownId
        \<longrightarrow> onmessage (handleWebSocketMessage knownId b ags now) m s = s"
    by (simp add: onmessage_def handleWebSocketMessage_def)
  from polled failed result fetched ignored show ?thesis by blast
qed

theorem outcome_when_results_obtainable_witness:
  "resultsObtainable offlineBackend
   \<and> hasOutcome (fst (pollAnalysisStatus offlineBackend GAIA_AGENTS 0 ''run-1'' analyzingDashboard))
   \<and> hasOutcome (onmessage (handleWebSocketMessage (Some ''run-1'') offlineBackend GAIA_AGENTS 0)
        (bareMessage ''error'') analyzingDashboard)
   \<and> hasOutcome (onmessage (handleWebSocketMessage (Some ''run-1'') offlineBackend GAIA_AGENTS 0)
        ((bareMessage ''result'')\<lparr>data := Some emptyPayload\<rparr>) analyzingDashboard)
   \<and> hasOutcome (onmessage (handleWebSocketMessage (Some ''run-1'') offlineBackend GAIA_AGENTS 0)
        ((bareMessage ''status'')\<lparr>message.status := Some ''completed''\<rparr>) analyzingDashboard)
   \<and> onmessage (handleWebSocketMessage None offlineBackend GAIA_AGENTS 0)
        ((bareMessage ''status'')\<lparr>message.status := Some ''completed''\<rparr>) analyzingDashboard
      = analyzingDashboard"
proof -
  have ob: "resultsObtainable offlineBackend"
    by (simp add: resultsObtainable_def offlineBackend_def)
  show ?thesis
    using ob
      outcome_when_results_obtainable [OF ob, of GAIA_AGENTS 0 "''run-1''" analyzingDashboard
        "bareMessage ''error''" "Some ''run-1''"]
      outcome_when_results_obtainable [OF ob, of GAIA_AGENTS 0 "''run-1''" analyzingDashboard
        "(bareMessage ''result'')\<lparr>data := Some emptyPayload\<rparr>" "Some ''run-1''"]
      outcome_when_results_obtainable [OF ob, of GAIA_AGENTS 0 "''run-1''" analyzingDashboard
        "(bareMessage ''status'')\<lparr>message.status := Some ''completed''\<rparr>" "Some ''run-1''"]
      outcome_when_results_obtainable [OF ob, of GAIA_AGENTS 0 "''run-1''" analyzingDashboard
        "(bareMessage ''status'')\<lparr>message.status := Some ''completed''\<rparr>" None]
    by (simp add: bareMessage_def truthyStr_def)
qed

text \<open>
  C3, counterexample. A fresh run of which the handler knows no analysis id receives the
  status message completed: afterwards there is neither a result nor an error, and the
  dashboard is still analyzing.
\<close>

theorem completed_without_id_counterexample:
  "\<not> hasOutcome (onmessage (handleWebSocketMessage None offlineBackend GAIA_AGENTS 0)
        ((bareMessage ''status'')\<lparr>message.status := Some ''completed''\<rparr>) analyzingDashboard)
   \<and> isAnalyzing (onmessage (handleWebSocketMessage None offlineBackend GAIA_AGENTS 0)
        ((bareMessage ''status'')\<lparr>message.status := Some ''completed''\<rparr>) analyzingDashboard)"
  by (simp add: onmessage_def handleWebSocketMessage_def bareMessage_def truthyStr_def
      hasOutcome_def analyzingDashboard_def initialDashboard_def)

text \<open>
  Beside the guard above, one path of the loop ends without an outcome: the status is
  completed without results, the results request rejects, and the status reply that
  \<^verbatim>\<open>fetchFinalResults\<close> falls back to carries no results either. The neighbouring branch,
  where that status request rejects, does set an error.
\<close>

lemma completed_without_results_is_silent:
  "\<not> hasOutcome (fst (pollAnalysisStatus completedWithoutResults GAIA_AGENTS 0 ''run-1''
        analyzingDashboard))
   \<and> \<not> isAnalyzing (fst (pollAnalysisStatus completedWithoutResults GAIA_AGENTS 0 ''run-1''
        analyzingDashboard))
   \<and> snd (pollAnalysisStatus completedWithoutResults GAIA_AGENTS 0 ''run-1'' analyzingDashboard)
      = [PollStatus, FetchResults, FetchStatus]"
  by (simp add: pollAnalysisStatus_def poll.simps maxAttempts_def completedWithoutResults_def
      emptyStatus_def fetchFinalResults_def updateAgents_def hasOutcome_def
      analyzingDashboard_def initialDashboard_def)


section \<open>Properties of the API client\<close>

text \<open>
  C7 (as the code has it). The API client exposes seven operations: starting a run, two
  retrievals (status and results), the progress subscription over a WebSocket, and
  three blockchain queries. Every one of them is a GET, a POST or a WebSocket
  connection; none issues the DELETE by which the backend cancels a run, and none
  serves cancellation.
\<close>

theorem api_client_has_no_cancellation:
  "m \<in> set AnalysisAPI
   \<and> fst (endpoint m arg) \<noteq> HttpDelete
   \<and> boundaryRole m \<noteq> Some Cancellation
   \<and> set (map boundaryRole AnalysisAPI)
       = {Some RunInvocation, Some ProgressSubscription, Some ResultRetrieval, None}"
  by (cases m) (auto simp: AnalysisAPI_def)

text \<open>
  C7, counterexample. Among the seven methods of \<^verbatim>\<open>AnalysisAPI\<close> none serves
  cancellation and none sends a DELETE request.
\<close>

theorem api_client_cancellation_counterexample:
  "Some Cancellation \<notin> set (map boundaryRole AnalysisAPI)
   \<and> HttpDelete \<notin> set (map (\<lambda>m. fst (endpoint m ''run-1'')) AnalysisAPI)
   \<and> length AnalysisAPI = 7"
  by (simp add: AnalysisAPI_def)


section \<open>Properties of the confidence revision\<close>

lemma counter_weight_category:
  "finding_category f' = finding_category f
   \<Longrightarrow> counter_weight_spec sb ob f' c = counter_weight_spec sb ob f c"
  by (simp add: counter_weight_spec_def independence_bonus_spec_def)

lemma confidence_apply_challenges:
  "finding_confidence (apply_challenges_spec sb ob f cs)
   = finding_confidence f * prod_list (map (\<lambda>c. 1 - counter_weight_spec sb ob f c) cs)"
proof (induction cs arbitrary: f)
  case Nil
  show ?case by simp
next
  case (Cons c cs)
  let ?f = "apply_challenge_spec sb ob f c"
  have cat: "finding_category ?f = finding_category f"
    by (simp add: apply_challenge_spec_def)
  have step: "finding_confidence ?f = finding_confidence f * (1 - counter_weight_spec sb ob f c)"
    by (simp add: apply_challenge_spec_def)
  have weights: "counter_weight_spec sb ob ?f = counter_weight_spec sb ob f"
    by (rule ext) (rule counter_weight_category [OF cat])
  have "finding_confidence (apply_challenges_spec sb ob f (c # cs))
        = finding_confidence ?f * prod_list (map (\<lambda>c. 1 - counter_weight_spec sb ob ?f c) cs)"
    using Cons.IH [of ?f] by simp
  also have "\<dots> = finding_confidence f
                 * prod_list (map (\<lambda>c. 1 - counter_weight_spec sb ob f c) (c # cs))"
    unfolding step weights by (simp add: mult.assoc)
  finally show ?case .
qed

text \<open>
  C5. For every challenge applied to a finding, the new confidence is the old one times
  one minus the counter weight, the counter weight being the normalized reliability of
  the counter-evidence times the independence bonus; over a sequence of challenges the
  factors multiply; and when the bonus for another domain exceeds the one for the same
  domain, a challenge from another domain weighs strictly more than a same-domain
  challenge of equal, positive reliability.
\<close>

theorem challenge_revises_confidence_spec:
  "finding_confidence (apply_challenge_spec sb ob f c)
     = finding_confidence f * (1 - counter_reliability c * independence_bonus_spec sb ob f c)
   \<and> finding_confidence (apply_challenges_spec sb ob f cs)
     = finding_confidence f * prod_list (map (\<lambda>c. 1 - counter_weight_spec sb ob f c) cs)
   \<and> (sb < ob \<and> 0 < counter_reliability c \<and> challenger_domain c \<noteq> finding_category f
        \<and> counter_reliability c' = counter_reliability c \<and> challenger_domain c' = finding_category f
      \<longrightarrow> counter_weight_spec sb ob f c' < counter_weight_spec sb ob f c)"
  by (simp add: confidence_apply_challenges)
     (simp add: apply_challenge_spec_def counter_weight_spec_def independence_bonus_spec_def)

theorem challenge_revises_confidence_spec_witness:
  "counter_weight_spec 1 (3 / 2)
       \<lparr>finding_category = ''environmental'', finding_confidence = 9 / 10\<rparr>
       \<lparr>challenger_domain = ''environmental'', counter_reliability = 2 / 5\<rparr>
     < counter_weight_spec 1 (3 / 2)
       \<lparr>finding_category = ''environmental'', finding_confidence = 9 / 10\<rparr>
       \<lparr>challenger_domain = ''social'', counter_reliability = 2 / 5\<rparr>
   \<and> finding_confidence (apply_challenge_spec 1 (3 / 2)
       \<lparr>finding_category = ''environmental'', finding_confidence = 9 / 10\<rparr>
       \<lparr>challenger_domain = ''social'', counter_reliability = 2 / 5\<rparr>) = 9 / 25"
  using challenge_revises_confidence_spec [of 1 "3 / 2"
      "\<lparr>finding_category = ''environmental'', finding_confidence = 9 / 10\<rparr>"
      "\<lparr>challenger_domain = ''social'', counter_reliability = 2 / 5\<rparr>" "[]"
      "\<lparr>challenger_domain = ''environmental'', counter_reliability = 2 / 5\<rparr>"]
  by (simp add: independence_bonus_spec_def)

end
